theory Spec2Isabelle
  imports Main
begin

section \<open>Data model\<close>

text \<open>
  Python's \<open>str\<close> is a sequence of Unicode code points and \<open>len\<close> counts code points, so
  text is modelled as a list of code points. \<open>py\<close> turns an ASCII literal of the source
  into that representation.
\<close>

type_synonym str = "nat list"

definition py :: "string \<Rightarrow> str" where
  "py s = map of_char s"

text \<open>The status vocabulary, as spelled in the source.\<close>

definition CONNECTADO :: str where
  "CONNECTADO = py ''CONNECTADO''"

definition DESCONECTADO :: str where
  "DESCONECTADO = py ''DESCONECTADO''"

text \<open>
  \<open>schemas.py\<close>: \<open>VeiculoCreate\<close> (marca, modelo, ano, placa, status). The response schema
  \<open>Veiculo\<close> and the table \<open>models.Veiculo\<close> both carry the same five fields plus \<open>id\<close>;
  they are one record here, an extension of \<open>VeiculoCreate\<close> by the primary key (the
  field is called \<open>id_veiculo\<close> because \<open>id\<close> is the identity function of HOL).
\<close>

record VeiculoCreate =
  marca :: str
  modelo :: str
  ano :: int
  placa :: str
  status :: str

record Veiculo = VeiculoCreate +
  id_veiculo :: int

text \<open>
  \<open>schemas.py\<close>: \<open>UsuarioBase\<close> (username), \<open>UsuarioCreate(UsuarioBase)\<close> adds password,
  \<open>Usuario(UsuarioBase)\<close> adds id. \<open>models.Usuario\<close> is the table row: id, username,
  hashed_password.
\<close>

record UsuarioBase =
  username :: str

record UsuarioCreate = UsuarioBase +
  password :: str

record Usuario = UsuarioBase +
  id_usuario :: int

record Usuario_row = Usuario +
  hashed_password :: str

record Token =
  access_token :: str
  token_type :: string

text \<open>
  The stored state: the tables \<open>veiculos\<close> and \<open>usuarios\<close> (\<open>__tablename__\<close> in
  \<open>models.py\<close>), each a list of rows in insertion order.
\<close>

record db =
  veiculos :: "Veiculo list"
  usuarios :: "Usuario_row list"

definition empty_db :: db where
  "empty_db = \<lparr>veiculos = [], usuarios = []\<rparr>"

section \<open>Errors\<close>

text \<open>
  The \<open>detail\<close> texts of the HTTP errors raised in \<open>main.py\<close>:
  \<^item> \<open>UsuarioOuSenhaIncorretos\<close>: "Usuario ou senha incorretos" (login);
  \<^item> \<open>StatusInvalido\<close>: "Status invalido. O status deve ser 'CONNECTADO' ou 'DESCONECTADO'.";
  \<^item> \<open>PlacaJaRegistrada\<close>: "Placa ja registrada.";
  \<^item> \<open>VeiculoNaoEncontrado\<close>: "Veiculo nao encontrado".
\<close>

datatype detail =
    UsuarioOuSenhaIncorretos
  | StatusInvalido
  | PlacaJaRegistrada
  | VeiculoNaoEncontrado

text \<open>
  The messages of the \<open>ValueError\<close>s raised in \<open>crud.py\<close>:
  \<^item> \<open>StatusDeveSer\<close>: "Status deve ser 'CONNECTADO' ou 'DESCONECTADO'";
  \<^item> \<open>VeiculoJaExiste p\<close>: "Veiculo com placa 'p' ja existe.";
  \<^item> \<open>ErroAoAdicionarVeiculo p\<close>: "Erro ao adicionar veiculo com placa 'p'.";
  \<^item> \<open>UsuarioJaExiste u\<close>: "Usuario 'u' ja existe.";
  \<^item> \<open>UsuarioIdNaoEncontrado i\<close>: "Usuario com ID i nao encontrado.".
\<close>

datatype value_error =
    StatusDeveSer
  | VeiculoJaExiste str
  | ErroAoAdicionarVeiculo str
  | UsuarioJaExiste str
  | UsuarioIdNaoEncontrado int

text \<open>
  The constraint violations that pydantic reports for \<open>VeiculoCreate\<close>:
  \<open>conint(ge=1886)\<close>, \<open>constr(min_length=7, max_length=7)\<close> and the field validator
  \<open>status_must_be_valid\<close>.
\<close>

datatype field_error =
    AnoBelow1886
  | PlacaTooShort
  | PlacaTooLong
  | StatusNotValid

text \<open>
  Exceptions. \<open>HTTPException status_code detail headers\<close> is FastAPI's; \<open>IntegrityError\<close>
  is SQLAlchemy's, raised by \<open>commit\<close> when a table constraint is violated;
  \<open>OverflowError\<close> is Python's, raised by the database driver for an integer parameter
  that does not fit the engine's integers;
  \<open>ValidationError\<close> is pydantic's, raised when a value does not validate against a
  schema, with the violations found; \<open>OtherError\<close> stands for any other exception raised
  by library code (the password hashing primitive).
\<close>

datatype exn =
    HTTPException nat detail "(string \<times> string) list"
  | ValueError value_error
  | IntegrityError
  | OverflowError
  | ValidationError "field_error list"
  | OtherError string

section \<open>Validation layer (schemas.py)\<close>

text \<open>\<open>v not in ["CONNECTADO", "DESCONECTADO"]\<close> is \<open>\<not> status_valid v\<close>.\<close>

definition status_valid :: "str \<Rightarrow> bool" where
  "status_valid v \<longleftrightarrow> v \<in> set [CONNECTADO, DESCONECTADO]"

text \<open>
  A vehicle-creation request body: the four required fields with values of their declared
  types, and the optional \<open>status\<close>. (A body that lacks a required field or carries a value
  of another type is rejected by the field types themselves and is outside this model.)
\<close>

record veiculo_body =
  body_marca :: str
  body_modelo :: str
  body_ano :: int
  body_placa :: str
  body_status :: "str option"

text \<open>
  \<open>VeiculoCreate\<close>: \<open>marca: str\<close> and \<open>modelo: str\<close> carry no constraint;
  \<open>ano: conint(ge=1886)\<close>; \<open>placa: constr(min_length=7, max_length=7)\<close>;
  \<open>status: str = "DESCONECTADO"\<close> with the validator \<open>status_must_be_valid\<close>, which runs
  on a supplied value only. Pydantic checks every field and reports the violations in field
  order; the body is accepted when there is none.
\<close>

definition VeiculoCreate_errors :: "veiculo_body \<Rightarrow> field_error list" where
  "VeiculoCreate_errors b =
     (if body_ano b < 1886 then [AnoBelow1886] else []) @
     (if length (body_placa b) < 7 then [PlacaTooShort]
      else if length (body_placa b) > 7 then [PlacaTooLong] else []) @
     (case body_status b of
        None \<Rightarrow> []
      | Some v \<Rightarrow> if \<not> status_valid v then [StatusNotValid] else [])"

definition VeiculoCreate_validate :: "veiculo_body \<Rightarrow> field_error list + VeiculoCreate" where
  "VeiculoCreate_validate b =
     (if VeiculoCreate_errors b = [] then
        Inr \<lparr>marca = body_marca b, modelo = body_modelo b, ano = body_ano b,
             placa = body_placa b,
             status = (case body_status b of None \<Rightarrow> DESCONECTADO | Some v \<Rightarrow> v)\<rparr>
      else Inl (VeiculoCreate_errors b))"

text \<open>
  A user-creation request body, and \<open>UsuarioCreate\<close>: \<open>username: str\<close> and
  \<open>password: str\<close>, neither with a constraint, so every body of two texts validates.
\<close>

record usuario_body =
  body_username :: str
  body_password :: str

definition UsuarioCreate_validate :: "usuario_body \<Rightarrow> field_error list + UsuarioCreate" where
  "UsuarioCreate_validate b = Inr \<lparr>username = body_username b, password = body_password b\<rparr>"

section \<open>Storage engine\<close>

text \<open>
  What the ORM session and the database do with the tables declared in \<open>models.py\<close>.
  \<^item> \<open>id = Column(Integer, primary_key=True)\<close>: the engine assigns the key of a new row,
    one more than the largest key in the table, \<open>1\<close> in an empty table.
  \<^item> \<open>placa = Column(String, unique=True)\<close> and the check constraint
    \<open>status IN ('CONNECTADO', 'DESCONECTADO')\<close>: \<open>commit\<close> of a new vehicle row raises
    \<open>IntegrityError\<close> when the plate is already in the table or the status is outside the
    vocabulary, and then stores nothing.
  \<^item> \<open>username = Column(String, unique=True)\<close>: likewise for a new user row.
  \<^item> \<open>query(...).filter(c).first()\<close> is the first row that satisfies \<open>c\<close>, or \<open>None\<close>.
  \<^item> The database is SQLite (\<open>atualizar_bd_veiculos.py\<close> opens \<open>veiculos.db\<close> with
    \<open>sqlite3\<close>), whose integers are signed 64-bit. A Python integer outside that range
    cannot be bound as a parameter of a statement: the driver raises \<open>OverflowError\<close>
    before the statement runs, so before any constraint is checked, and nothing is
    stored. This concerns the integers that come with a request: the year of a new
    vehicle row and the id of a lookup by primary key.
\<close>

definition sqlite_int :: "int \<Rightarrow> bool" where
  "sqlite_int i \<longleftrightarrow> - (2 ^ 63) \<le> i \<and> i < 2 ^ 63"

fun new_id :: "int list \<Rightarrow> int" where
  "new_id [] = 1"
| "new_id (i # ids) = fold max ids i + 1"

definition insert_veiculo :: "db \<Rightarrow> VeiculoCreate \<Rightarrow> exn + (db \<times> Veiculo)" where
  "insert_veiculo d v =
     (if \<not> sqlite_int (ano v) then Inl OverflowError
      else if placa v \<in> set (map placa (veiculos d)) \<or> \<not> status_valid (status v)
      then Inl IntegrityError
      else
        let row = \<lparr>marca = marca v, modelo = modelo v, ano = ano v, placa = placa v,
                   status = status v,
                   id_veiculo = new_id (map id_veiculo (veiculos d))\<rparr>
        in Inr (d\<lparr>veiculos := veiculos d @ [row]\<rparr>, row))"

definition insert_usuario :: "db \<Rightarrow> str \<Rightarrow> str \<Rightarrow> exn + (db \<times> Usuario_row)" where
  "insert_usuario d name hashed =
     (if name \<in> set (map username (usuarios d))
      then Inl IntegrityError
      else
        let row = \<lparr>username = name,
                   id_usuario = new_id (map id_usuario (usuarios d)),
                   hashed_password = hashed\<rparr>
        in Inr (d\<lparr>usuarios := usuarios d @ [row]\<rparr>, row))"

text \<open>
  \<open>db.query(models.Veiculo).filter(models.Veiculo.id == veiculo_id).first()\<close>, the lookup
  by primary key that \<open>crud.get_veiculo\<close> and three handlers of \<open>main.py\<close> spell out, and
  the same lookup in the user table (\<open>crud.delete_usuario\<close>).
\<close>

definition first_veiculo_by_id :: "db \<Rightarrow> int \<Rightarrow> exn + Veiculo option" where
  "first_veiculo_by_id d veiculo_id =
     (if \<not> sqlite_int veiculo_id then Inl OverflowError
      else Inr (find (\<lambda>r. id_veiculo r = veiculo_id) (veiculos d)))"

definition first_usuario_by_id :: "db \<Rightarrow> int \<Rightarrow> exn + Usuario_row option" where
  "first_usuario_by_id d usuario_id =
     (if \<not> sqlite_int usuario_id then Inl OverflowError
      else Inr (find (\<lambda>r. id_usuario r = usuario_id) (usuarios d)))"

text \<open>
  \<open>veiculo.status = status; db.commit()\<close> writes the status of the row with that primary
  key; \<open>db.delete(row); db.commit()\<close> removes the row with that primary key.
\<close>

definition store_status :: "db \<Rightarrow> int \<Rightarrow> str \<Rightarrow> db" where
  "store_status d veiculo_id s =
     d\<lparr>veiculos := map (\<lambda>r. if id_veiculo r = veiculo_id then r\<lparr>status := s\<rparr> else r)
                        (veiculos d)\<rparr>"

definition remove_veiculo :: "db \<Rightarrow> int \<Rightarrow> db" where
  "remove_veiculo d veiculo_id =
     d\<lparr>veiculos := filter (\<lambda>r. id_veiculo r \<noteq> veiculo_id) (veiculos d)\<rparr>"

definition remove_usuario :: "db \<Rightarrow> int \<Rightarrow> db" where
  "remove_usuario d usuario_id =
     d\<lparr>usuarios := filter (\<lambda>r. id_usuario r \<noteq> usuario_id) (usuarios d)\<rparr>"

section \<open>Data-access layer (crud.py)\<close>

text \<open>
  Every operation takes the stored state and returns the state after it, together with its
  result: \<open>Inl e\<close> when the source raises \<open>e\<close>, \<open>Inr r\<close> when it returns \<open>r\<close>.
\<close>

definition get_veiculo :: "db \<Rightarrow> int \<Rightarrow> exn + Veiculo option" where
  "get_veiculo d veiculo_id = first_veiculo_by_id d veiculo_id"

definition get_veiculo_by_placa :: "db \<Rightarrow> str \<Rightarrow> Veiculo option" where
  "get_veiculo_by_placa d p = find (\<lambda>r. placa r = p) (veiculos d)"

definition create_veiculo :: "db \<Rightarrow> VeiculoCreate \<Rightarrow> db \<times> (exn + Veiculo)" where
  "create_veiculo d v =
     (if \<not> status_valid (status v) then (d, Inl (ValueError StatusDeveSer))
      else case get_veiculo_by_placa d (placa v) of
        Some existing_veiculo \<Rightarrow> (d, Inl (ValueError (VeiculoJaExiste (placa v))))
      | None \<Rightarrow>
          (case insert_veiculo d v of
             Inl IntegrityError \<Rightarrow> (d, Inl (ValueError (ErroAoAdicionarVeiculo (placa v))))
           | Inl e \<Rightarrow> (d, Inl e)
           | Inr (d', db_veiculo) \<Rightarrow> (d', Inr db_veiculo)))"

definition update_veiculo_status :: "db \<Rightarrow> int \<Rightarrow> str \<Rightarrow> db \<times> (exn + Veiculo option)" where
  "update_veiculo_status d veiculo_id s =
     (if \<not> status_valid s then (d, Inl (ValueError StatusDeveSer))
      else case get_veiculo d veiculo_id of
        Inl e \<Rightarrow> (d, Inl e)
      | Inr (Some veiculo) \<Rightarrow>
          (store_status d veiculo_id s, Inr (Some (veiculo\<lparr>status := s\<rparr>)))
      | Inr None \<Rightarrow> (d, Inr None))"

definition delete_veiculo :: "db \<Rightarrow> int \<Rightarrow> db \<times> (exn + Veiculo option)" where
  "delete_veiculo d veiculo_id =
     (case get_veiculo d veiculo_id of
        Inl e \<Rightarrow> (d, Inl e)
      | Inr (Some veiculo) \<Rightarrow> (remove_veiculo d veiculo_id, Inr (Some veiculo))
      | Inr None \<Rightarrow> (d, Inr None))"

definition get_usuario_by_username :: "db \<Rightarrow> str \<Rightarrow> Usuario_row option" where
  "get_usuario_by_username d name = find (\<lambda>r. username r = name) (usuarios d)"

text \<open>
  \<open>pwd_context.hash\<close> comes from \<open>app/auth.py\<close>, which is not among the sources: it is the
  parameter \<open>pwd_hash\<close>, a function from the plaintext to the hash that may raise.
\<close>

definition create_usuario ::
  "(str \<Rightarrow> exn + str) \<Rightarrow> db \<Rightarrow> UsuarioCreate \<Rightarrow> db \<times> (exn + Usuario_row)" where
  "create_usuario pwd_hash d u =
     (case get_usuario_by_username d (username u) of
        Some existing_user \<Rightarrow> (d, Inl (ValueError (UsuarioJaExiste (username u))))
      | None \<Rightarrow>
          (case pwd_hash (password u) of
             Inl e \<Rightarrow> (d, Inl e)
           | Inr hashed \<Rightarrow>
               (case insert_usuario d (username u) hashed of
                  Inl e \<Rightarrow> (d, Inl e)
                | Inr (d', db_usuario) \<Rightarrow> (d', Inr db_usuario))))"

definition delete_usuario :: "db \<Rightarrow> int \<Rightarrow> db \<times> (exn + Usuario_row)" where
  "delete_usuario d usuario_id =
     (case first_usuario_by_id d usuario_id of
        Inl e \<Rightarrow> (d, Inl e)
      | Inr None \<Rightarrow> (d, Inl (ValueError (UsuarioIdNaoEncontrado usuario_id)))
      | Inr (Some usuario) \<Rightarrow> (remove_usuario d usuario_id, Inr usuario))"

section \<open>Auth layer\<close>

text \<open>
  Modelled from the spec: \<open>authenticate_user\<close> lives in \<open>app/auth.py\<close>, which is not among
  the sources. Section 4.3: "given username+password, look up the user by username; if
  absent or password verification fails, reject"; otherwise the user is the result. The
  verification primitive (plaintext against stored hash) is the parameter
  \<open>verify_password\<close>.
\<close>

definition authenticate_user ::
  "(str \<Rightarrow> str \<Rightarrow> bool) \<Rightarrow> db \<Rightarrow> str \<Rightarrow> str \<Rightarrow> Usuario_row option" where
  "authenticate_user verify_password d name pw =
     (case get_usuario_by_username d name of
        None \<Rightarrow> None
      | Some user \<Rightarrow> if verify_password pw (hashed_password user) then Some user else None)"

section \<open>HTTP layer (main.py)\<close>

text \<open>
  The \<open>message\<close> texts returned by \<open>read_root\<close> ("Bem-vindo a API de gerenciamento de
  veiculos!") and by \<open>excluir_veiculo\<close> ("Veiculo excluido com sucesso").
\<close>

datatype message = BemVindo | VeiculoExcluido

text \<open>
  \<open>login_for_access_token\<close>. \<open>create_access_token\<close> and \<open>ACCESS_TOKEN_EXPIRE_MINUTES\<close>
  belong to \<open>app/auth.py\<close> and are parameters: the token is made from the subject
  \<open>user.username\<close> and the expiry in minutes, as the call in the source passes them.
\<close>

definition login_for_access_token ::
  "(str \<Rightarrow> str \<Rightarrow> bool) \<Rightarrow> (str \<Rightarrow> nat \<Rightarrow> str) \<Rightarrow> nat \<Rightarrow> db \<Rightarrow> str \<Rightarrow> str
     \<Rightarrow> db \<times> (exn + Token)" where
  "login_for_access_token verify_password create_access_token expire_minutes d name pw =
     (case authenticate_user verify_password d name pw of
        None \<Rightarrow>
          (d, Inl (HTTPException 401 UsuarioOuSenhaIncorretos
                     [(''WWW-Authenticate'', ''Bearer'')]))
      | Some user \<Rightarrow>
          (d, Inr \<lparr>access_token = create_access_token (username user) expire_minutes,
                   token_type = ''bearer''\<rparr>))"

text \<open>
  \<open>response_model=schemas.Usuario\<close>: the row returned by the handler is serialised through
  the schema \<open>Usuario\<close>, whose fields are \<open>username\<close> and \<open>id\<close>.
\<close>

definition Usuario_response :: "Usuario_row \<Rightarrow> Usuario" where
  "Usuario_response r = \<lparr>username = username r, id_usuario = id_usuario r\<rparr>"

text \<open>
  \<open>criar_usuario\<close>: hash, add, commit, refresh, return; no lookup before the insertion and
  no \<open>try\<close> around the commit. \<open>auth.get_password_hash\<close> is a parameter, as above.
\<close>

definition criar_usuario ::
  "(str \<Rightarrow> exn + str) \<Rightarrow> UsuarioCreate \<Rightarrow> db \<Rightarrow> db \<times> (exn + Usuario)" where
  "criar_usuario get_password_hash u d =
     (case get_password_hash (password u) of
        Inl e \<Rightarrow> (d, Inl e)
      | Inr hashed \<Rightarrow>
          (case insert_usuario d (username u) hashed of
             Inl e \<Rightarrow> (d, Inl e)
           | Inr (d', db_usuario) \<Rightarrow> (d', Inr (Usuario_response db_usuario))))"

definition read_root :: message where
  "read_root = BemVindo"

text \<open>
  The vehicle handlers take the user resolved by \<open>Depends(get_current_active_user)\<close> as the
  argument \<open>current_user\<close>; none of them reads it.
\<close>

definition listar_veiculos :: "db \<Rightarrow> Usuario \<Rightarrow> db \<times> (exn + Veiculo list)" where
  "listar_veiculos d current_user = (d, Inr (veiculos d))"

definition criar_veiculo :: "VeiculoCreate \<Rightarrow> db \<Rightarrow> Usuario \<Rightarrow> db \<times> (exn + Veiculo)" where
  "criar_veiculo v d current_user =
     (if \<not> status_valid (status v) then (d, Inl (HTTPException 400 StatusInvalido []))
      else case insert_veiculo d v of
        Inl IntegrityError \<Rightarrow> (d, Inl (HTTPException 400 PlacaJaRegistrada []))
      | Inl e \<Rightarrow> (d, Inl e)
      | Inr (d', db_veiculo) \<Rightarrow> (d', Inr db_veiculo))"

definition obter_veiculo :: "int \<Rightarrow> db \<Rightarrow> Usuario \<Rightarrow> db \<times> (exn + Veiculo)" where
  "obter_veiculo veiculo_id d current_user =
     (case first_veiculo_by_id d veiculo_id of
        Inl e \<Rightarrow> (d, Inl e)
      | Inr None \<Rightarrow> (d, Inl (HTTPException 404 VeiculoNaoEncontrado []))
      | Inr (Some veiculo) \<Rightarrow> (d, Inr veiculo))"

definition atualizar_status :: "int \<Rightarrow> str \<Rightarrow> db \<Rightarrow> Usuario \<Rightarrow> db \<times> (exn + Veiculo)" where
  "atualizar_status veiculo_id s d current_user =
     (if \<not> status_valid s then (d, Inl (HTTPException 400 StatusInvalido []))
      else case first_veiculo_by_id d veiculo_id of
        Inl e \<Rightarrow> (d, Inl e)
      | Inr None \<Rightarrow> (d, Inl (HTTPException 404 VeiculoNaoEncontrado []))
      | Inr (Some veiculo) \<Rightarrow>
          (store_status d veiculo_id s, Inr (veiculo\<lparr>status := s\<rparr>)))"

definition excluir_veiculo :: "int \<Rightarrow> db \<Rightarrow> Usuario \<Rightarrow> db \<times> (exn + message)" where
  "excluir_veiculo veiculo_id d current_user =
     (case first_veiculo_by_id d veiculo_id of
        Inl e \<Rightarrow> (d, Inl e)
      | Inr None \<Rightarrow> (d, Inl (HTTPException 404 VeiculoNaoEncontrado []))
      | Inr (Some veiculo) \<Rightarrow> (remove_veiculo d veiculo_id, Inr VeiculoExcluido))"

text \<open>
  The two endpoints with a request body. The framework validates the body against the
  schema named in the handler's signature and calls the handler only with the validated
  object; a body that does not validate never reaches the handler.
\<close>

definition post_veiculos :: "veiculo_body \<Rightarrow> db \<Rightarrow> Usuario \<Rightarrow> db \<times> (exn + Veiculo)" where
  "post_veiculos body d current_user =
     (case VeiculoCreate_validate body of
        Inl errs \<Rightarrow> (d, Inl (ValidationError errs))
      | Inr v \<Rightarrow> criar_veiculo v d current_user)"

definition post_usuarios ::
  "(str \<Rightarrow> exn + str) \<Rightarrow> usuario_body \<Rightarrow> db \<Rightarrow> db \<times> (exn + Usuario)" where
  "post_usuarios get_password_hash body d =
     (case UsuarioCreate_validate body of
        Inl errs \<Rightarrow> (d, Inl (ValidationError errs))
      | Inr u \<Rightarrow> criar_usuario get_password_hash u d)"

section \<open>Operator CLI (manage_users.py)\<close>

datatype action = Create | List | Delete

record args =
  arg_action :: action
  arg_username :: "str option"
  arg_password :: "str option"

text \<open>
  What the CLI prints:
  \<^item> \<open>UsuarioESenhaNecessarios\<close>: "Usuario e senha sao necessarios para criar um novo usuario.";
  \<^item> \<open>JaExiste u\<close>: "Usuario 'u' ja existe.";
  \<^item> \<open>CriadoComSucesso u\<close>: "Usuario 'u' criado com sucesso.";
  \<^item> \<open>Listado i u\<close>: "ID: i, Username: u";
  \<^item> \<open>NomeNecessario\<close>: "Nome de usuario e necessario para excluir um usuario.";
  \<^item> \<open>ExcluidoComSucesso u\<close>: "Usuario 'u' excluido com sucesso.";
  \<^item> \<open>NaoEncontrado u\<close>: "Usuario 'u' nao encontrado.";
  \<^item> \<open>OcorreuUmErro e\<close>: "Ocorreu um erro: e".
\<close>

datatype printed =
    UsuarioESenhaNecessarios
  | JaExiste str
  | CriadoComSucesso str
  | Listado int str
  | NomeNecessario
  | ExcluidoComSucesso str
  | NaoEncontrado str
  | OcorreuUmErro exn

text \<open>\<open>not args.username\<close>: true for an absent option (\<open>None\<close>) and for the empty text.\<close>

fun py_not :: "str option \<Rightarrow> bool" where
  "py_not None = True"
| "py_not (Some s) = (s = [])"

text \<open>
  The body of the \<open>try\<close> block of \<open>main\<close>: the state after it, what it printed, and
  \<open>Inl e\<close> when it left with the exception \<open>e\<close>, \<open>Inr ()\<close> when it finished or returned.
\<close>

definition main_try ::
  "(str \<Rightarrow> exn + str) \<Rightarrow> args \<Rightarrow> db \<Rightarrow> db \<times> printed list \<times> (exn + unit)" where
  "main_try pwd_hash a d =
     (case arg_action a of
        Create \<Rightarrow>
          if py_not (arg_username a) \<or> py_not (arg_password a)
          then (d, [UsuarioESenhaNecessarios], Inr ())
          else
            \<comment> \<open>both options hold a non-empty text here\<close>
            let name = the (arg_username a); pw = the (arg_password a) in
            (case get_usuario_by_username d name of
               Some existing_user \<Rightarrow> (d, [JaExiste name], Inr ())
             | None \<Rightarrow>
                 (case UsuarioCreate_validate \<lparr>body_username = name, body_password = pw\<rparr> of
                    Inl errs \<Rightarrow> (d, [], Inl (ValidationError errs))
                  | Inr usuario \<Rightarrow>
                      (case create_usuario pwd_hash d usuario of
                         (d', Inl e) \<Rightarrow> (d', [], Inl e)
                       | (d', Inr _) \<Rightarrow> (d', [CriadoComSucesso name], Inr ()))))
      | List \<Rightarrow>
          (d, map (\<lambda>usuario. Listado (id_usuario usuario) (username usuario)) (usuarios d),
           Inr ())
      | Delete \<Rightarrow>
          if py_not (arg_username a) then (d, [NomeNecessario], Inr ())
          else
            let name = the (arg_username a) in
            (case get_usuario_by_username d name of
               Some usuario \<Rightarrow>
                 (case delete_usuario d (id_usuario usuario) of
                    (d', Inl e) \<Rightarrow> (d', [], Inl e)
                  | (d', Inr _) \<Rightarrow> (d', [ExcluidoComSucesso name], Inr ()))
             | None \<Rightarrow> (d, [NaoEncontrado name], Inr ())))"

text \<open>
  \<open>main\<close>: the \<open>try\<close> block under \<open>except Exception as e: print(...)\<close>. The result is the
  state after the run and everything printed; \<open>main\<close> itself raises nothing.
\<close>

definition main :: "(str \<Rightarrow> exn + str) \<Rightarrow> args \<Rightarrow> db \<Rightarrow> db \<times> printed list" where
  "main pwd_hash a d =
     (case main_try pwd_hash a d of
        (d', out, Inl e) \<Rightarrow> (d', out @ [OcorreuUmErro e])
      | (d', out, Inr _) \<Rightarrow> (d', out))"

section \<open>Sequences of operations\<close>

text \<open>
  The functions of \<open>app/auth.py\<close> that the handlers and the data-access layer call, bundled:
  they are parameters of every run.
\<close>

record auth =
  auth_pwd_context_hash :: "str \<Rightarrow> exn + str"
  auth_get_password_hash :: "str \<Rightarrow> exn + str"
  auth_verify_password :: "str \<Rightarrow> str \<Rightarrow> bool"
  auth_create_access_token :: "str \<Rightarrow> nat \<Rightarrow> str"
  auth_expire_minutes :: nat

text \<open>
  Every entry point of the repository that reaches the stored state: the HTTP handlers
  (called with a validated object, or through the body validation), the functions of
  \<open>crud.py\<close> and the CLI.
\<close>

datatype operation =
    Login str str
  | CriarUsuario UsuarioCreate
  | PostUsuarios usuario_body
  | ListarVeiculos Usuario
  | CriarVeiculo VeiculoCreate Usuario
  | PostVeiculos veiculo_body Usuario
  | ObterVeiculo int Usuario
  | AtualizarStatus int str Usuario
  | ExcluirVeiculo int Usuario
  | CrudCreateVeiculo VeiculoCreate
  | CrudUpdateVeiculoStatus int str
  | CrudDeleteVeiculo int
  | CrudCreateUsuario UsuarioCreate
  | CrudDeleteUsuario int
  | ManageUsers args

fun step :: "auth \<Rightarrow> db \<Rightarrow> operation \<Rightarrow> db" where
  "step au d (Login name pw) =
     fst (login_for_access_token (auth_verify_password au) (auth_create_access_token au)
            (auth_expire_minutes au) d name pw)"
| "step au d (CriarUsuario u) = fst (criar_usuario (auth_get_password_hash au) u d)"
| "step au d (PostUsuarios body) = fst (post_usuarios (auth_get_password_hash au) body d)"
| "step au d (ListarVeiculos cu) = fst (listar_veiculos d cu)"
| "step au d (CriarVeiculo v cu) = fst (criar_veiculo v d cu)"
| "step au d (PostVeiculos body cu) = fst (post_veiculos body d cu)"
| "step au d (ObterVeiculo i cu) = fst (obter_veiculo i d cu)"
| "step au d (AtualizarStatus i s cu) = fst (atualizar_status i s d cu)"
| "step au d (ExcluirVeiculo i cu) = fst (excluir_veiculo i d cu)"
| "step au d (CrudCreateVeiculo v) = fst (create_veiculo d v)"
| "step au d (CrudUpdateVeiculoStatus i s) = fst (update_veiculo_status d i s)"
| "step au d (CrudDeleteVeiculo i) = fst (delete_veiculo d i)"
| "step au d (CrudCreateUsuario u) = fst (create_usuario (auth_pwd_context_hash au) d u)"
| "step au d (CrudDeleteUsuario i) = fst (delete_usuario d i)"
| "step au d (ManageUsers a) = fst (main (auth_pwd_context_hash au) a d)"

fun run :: "auth \<Rightarrow> db \<Rightarrow> operation list \<Rightarrow> db" where
  "run au d [] = d"
| "run au d (x # xs) = run au (step au d x) xs"


definition ids_unique :: "db \<Rightarrow> bool" where
  "ids_unique d \<longleftrightarrow> distinct (map id_veiculo (veiculos d))"

text \<open>
  The four ways in which one operation can leave the vehicle table: as it was, with one new
  row at the end (with a plate that was not stored and the key that the engine assigns),
  with the status of the rows of one key written, or with the rows of one key removed.
\<close>

inductive veiculos_step :: "Veiculo list \<Rightarrow> Veiculo list \<Rightarrow> bool" where
  unchanged: "veiculos_step rows rows"
| inserted: "placa row \<notin> set (map placa rows) \<Longrightarrow>
             id_veiculo row = new_id (map id_veiculo rows) \<Longrightarrow>
             veiculos_step rows (rows @ [row])"
| updated: "veiculos_step rows
             (map (\<lambda>r. if id_veiculo r = i then r\<lparr>status := s\<rparr> else r) rows)"
| removed: "veiculos_step rows (filter (\<lambda>r. id_veiculo r \<noteq> i) rows)"

section \<open>Auxiliary facts\<close>

lemmas vocabulary_defs = status_valid_def CONNECTADO_def DESCONECTADO_def py_def

lemma sqlite_int_numeral [simp]:
  "sqlite_int 1" "sqlite_int 2" "sqlite_int 999" "sqlite_int 2022" "\<not> sqlite_int (2 ^ 63)"
  by (simp_all add: sqlite_int_def)

lemma new_id_fresh: "i \<in> set ids \<Longrightarrow> i < new_id ids"
proof (cases ids)
  case Nil
  assume "i \<in> set ids"
  with Nil show ?thesis by simp
next
  case (Cons a as)
  assume "i \<in> set ids"
  then have "i \<le> Max (set (a # as))" using Cons by (intro Max_ge) auto
  also have "Max (set (a # as)) = fold max as a" by (rule Max.set_eq_fold)
  finally show ?thesis using Cons by simp
qed


lemma find_present: "k \<in> set (map f rows) \<Longrightarrow> \<exists>r. find (\<lambda>r. f r = k) rows = Some r"
  by (induction rows) auto

lemma find_unique_key:
  "distinct (map f rows) \<Longrightarrow> v \<in> set rows \<Longrightarrow> find (\<lambda>r. f r = f v) rows = Some v"
  by (induction rows) (auto simp: image_iff)

lemma VeiculoCreate_errors_Nil:
  "VeiculoCreate_errors b = [] \<longleftrightarrow>
     1886 \<le> body_ano b \<and> length (body_placa b) = 7 \<and>
     (\<forall>v. body_status b = Some v \<longrightarrow> status_valid v)"
  by (auto simp: VeiculoCreate_errors_def split: option.splits)

section \<open>Validation\<close>

text \<open>
  C5. A vehicle-creation request with a year below 1886, a plate that does not have exactly
  7 characters, or a supplied status outside the vocabulary is rejected by the validation,
  and the endpoint returns the stored state as it was; every other request validates, to
  the object with the request's fields and the default status where none was supplied.
\<close>

theorem veiculo_validation_sound_and_complete:
  "(body_ano b < 1886 \<or> length (body_placa b) \<noteq> 7 \<or>
      (\<exists>v. body_status b = Some v \<and> \<not> status_valid v)
    \<longrightarrow> (\<exists>errs. errs \<noteq> [] \<and> VeiculoCreate_validate b = Inl errs \<and>
           post_veiculos b d cu = (d, Inl (ValidationError errs))))
   \<and>
   (\<not> (body_ano b < 1886 \<or> length (body_placa b) \<noteq> 7 \<or>
      (\<exists>v. body_status b = Some v \<and> \<not> status_valid v))
    \<longrightarrow> VeiculoCreate_validate b =
           Inr \<lparr>marca = body_marca b, modelo = body_modelo b, ano = body_ano b,
                placa = body_placa b,
                status = (case body_status b of None \<Rightarrow> DESCONECTADO | Some v \<Rightarrow> v)\<rparr>)"
proof (cases "VeiculoCreate_errors b = []")
  case True
  then show ?thesis
    using VeiculoCreate_errors_Nil[of b] by (auto simp: VeiculoCreate_validate_def)
next
  case False
  then show ?thesis
    using VeiculoCreate_errors_Nil[of b]
    by (auto simp: VeiculoCreate_validate_def post_veiculos_def)
qed

theorem veiculo_validation_witness:
  "body_ano \<lparr>body_marca = py ''Fiat'', body_modelo = py ''Uno'', body_ano = 1885,
             body_placa = py ''ABC1234'', body_status = Some (py ''CONNECTADO'')\<rparr> < 1886
   \<and> (\<exists>errs. errs \<noteq> [] \<and>
         post_veiculos \<lparr>body_marca = py ''Fiat'', body_modelo = py ''Uno'', body_ano = 1885,
             body_placa = py ''ABC1234'', body_status = Some (py ''CONNECTADO'')\<rparr>
           empty_db \<lparr>username = py ''alice'', id_usuario = 1\<rparr>
         = (empty_db, Inl (ValidationError errs)))
   \<and> VeiculoCreate_validate \<lparr>body_marca = py ''Fiat'', body_modelo = py ''Uno'',
         body_ano = 2022, body_placa = py ''ABC1234'', body_status = None\<rparr>
       = Inr \<lparr>marca = py ''Fiat'', modelo = py ''Uno'', ano = 2022, placa = py ''ABC1234'',
              status = DESCONECTADO\<rparr>"
proof -
  let ?bad = "\<lparr>body_marca = py ''Fiat'', body_modelo = py ''Uno'', body_ano = 1885,
             body_placa = py ''ABC1234'', body_status = Some (py ''CONNECTADO'')\<rparr>"
  let ?good = "\<lparr>body_marca = py ''Fiat'', body_modelo = py ''Uno'',
         body_ano = 2022, body_placa = py ''ABC1234'', body_status = None\<rparr>"
  have h: "body_ano ?bad < 1886" by simp
  have g: "\<not> (body_ano ?good < 1886 \<or> length (body_placa ?good) \<noteq> 7 \<or>
      (\<exists>v. body_status ?good = Some v \<and> \<not> status_valid v))"
    by (simp add: py_def)
  show ?thesis
    using h g
      veiculo_validation_sound_and_complete
        [where b = ?bad and d = empty_db
           and cu = "\<lparr>username = py ''alice'', id_usuario = 1\<rparr>"]
      veiculo_validation_sound_and_complete [where b = ?good]
    by auto
qed

text \<open>
  C3, as the claim states it, fails: a vehicle-creation request with empty brand and model
  validates and its row is stored.
\<close>

theorem empty_text_accepted:
  "post_veiculos \<lparr>body_marca = [], body_modelo = [], body_ano = 2022,
       body_placa = py ''ABC1234'', body_status = None\<rparr>
     empty_db \<lparr>username = py ''alice'', id_usuario = 1\<rparr>
   = (\<lparr>veiculos = [\<lparr>marca = [], modelo = [], ano = 2022, placa = py ''ABC1234'',
                      status = DESCONECTADO, id_veiculo = 1\<rparr>], usuarios = []\<rparr>,
      Inr \<lparr>marca = [], modelo = [], ano = 2022, placa = py ''ABC1234'',
           status = DESCONECTADO, id_veiculo = 1\<rparr>)"
  by (simp add: post_veiculos_def VeiculoCreate_validate_def VeiculoCreate_errors_def
      criar_veiculo_def insert_veiculo_def empty_db_def vocabulary_defs Let_def)

text \<open>
  C3, amended, for vehicle creation. The schema puts no constraint on brand and model beyond
  their being text: the violations found in a vehicle-creation request are the same
  whatever its brand and model are, the empty text included, so an empty brand or model is
  never a ground for rejection. A vehicle-creation request that validation does reject
  leaves the stored state as it was. (User creation is not part of this statement: the
  endpoint accepts an empty username or password, which the operator CLI refuses, see
  \<open>usuario_empty_text_api_and_cli\<close> below.)
\<close>

theorem validation_ignores_free_text:
  "VeiculoCreate_errors (b\<lparr>body_marca := m, body_modelo := m'\<rparr>) = VeiculoCreate_errors b
   \<and> (VeiculoCreate_validate b = Inl errs
        \<longrightarrow> post_veiculos b d cu = (d, Inl (ValidationError errs)))"
  by (simp add: VeiculoCreate_errors_def post_veiculos_def)

theorem validation_ignores_free_text_witness:
  "VeiculoCreate_validate \<lparr>body_marca = [], body_modelo = [], body_ano = 2022,
       body_placa = py ''ABC123'', body_status = None\<rparr> = Inl [PlacaTooShort]
   \<and> post_veiculos \<lparr>body_marca = [], body_modelo = [], body_ano = 2022,
       body_placa = py ''ABC123'', body_status = None\<rparr>
       empty_db \<lparr>username = py ''alice'', id_usuario = 1\<rparr>
     = (empty_db, Inl (ValidationError [PlacaTooShort]))"
proof -
  let ?b = "\<lparr>body_marca = [], body_modelo = [], body_ano = 2022,
       body_placa = py ''ABC123'', body_status = None\<rparr>"
  have h: "VeiculoCreate_validate ?b = Inl [PlacaTooShort]"
    by (simp add: VeiculoCreate_validate_def VeiculoCreate_errors_def py_def)
  show ?thesis
    using h validation_ignores_free_text
      [where b = ?b and errs = "[PlacaTooShort]" and d = empty_db
         and cu = "\<lparr>username = py ''alice'', id_usuario = 1\<rparr>"]
    by simp
qed

text \<open>
  The two user-creation paths differ on empty text: \<open>UsuarioCreate\<close> accepts an empty
  username and password, so the endpoint stores such a user, while \<open>manage_users.py\<close>
  refuses the same request before any query.
\<close>

lemma usuario_empty_text_api_and_cli:
  "post_usuarios Inr \<lparr>body_username = [], body_password = []\<rparr> empty_db
     = (\<lparr>veiculos = [],
          usuarios = [\<lparr>username = [], id_usuario = 1, hashed_password = []\<rparr>]\<rparr>,
        Inr \<lparr>username = [], id_usuario = 1\<rparr>)"
  "main Inr \<lparr>arg_action = Create, arg_username = Some [], arg_password = Some []\<rparr> empty_db
     = (empty_db, [UsuarioESenhaNecessarios])"
  by (simp_all add: post_usuarios_def UsuarioCreate_validate_def criar_usuario_def
      insert_usuario_def Usuario_response_def empty_db_def Let_def main_def main_try_def)

section \<open>Status update, lookup and deletion\<close>

text \<open>
  C4. A status-update request whose status is outside the vocabulary is rejected with HTTP
  400 and the stored state is returned as it was, whatever the vehicle id, stored or not.
  The data-access function \<open>update_veiculo_status\<close> rejects the same values with its
  \<open>ValueError\<close>, also without a change.
\<close>

theorem invalid_status_rejected:
  "\<not> status_valid s \<Longrightarrow>
     atualizar_status veiculo_id s d cu = (d, Inl (HTTPException 400 StatusInvalido []))
     \<and> update_veiculo_status d veiculo_id s = (d, Inl (ValueError StatusDeveSer))"
  by (simp add: atualizar_status_def update_veiculo_status_def)

theorem invalid_status_rejected_witness:
  "\<not> status_valid (py ''INVALIDO'')
   \<and> atualizar_status 1 (py ''INVALIDO'')
         \<lparr>veiculos = [\<lparr>marca = py ''Fiat'', modelo = py ''Uno'', ano = 2022,
                        placa = py ''ABC1234'', status = CONNECTADO, id_veiculo = 1\<rparr>],
           usuarios = []\<rparr>
         \<lparr>username = py ''alice'', id_usuario = 1\<rparr>
       = (\<lparr>veiculos = [\<lparr>marca = py ''Fiat'', modelo = py ''Uno'', ano = 2022,
                        placa = py ''ABC1234'', status = CONNECTADO, id_veiculo = 1\<rparr>],
           usuarios = []\<rparr>,
          Inl (HTTPException 400 StatusInvalido []))"
proof -
  have h: "\<not> status_valid (py ''INVALIDO'')"
    by (simp add: vocabulary_defs)
  show ?thesis
    using h invalid_status_rejected [OF h, where veiculo_id = 1] by simp
qed




text \<open>
  C10. For a stored vehicle \<open>v\<close> and a valid status \<open>s\<close>, in a table whose primary keys are
  distinct and with the key of \<open>v\<close> a signed 64-bit integer (as is every key that the engine
  assigned, see \<open>reachable_keys\<close> below), the status update on the id of \<open>v\<close> returns \<open>v\<close>
  with the status \<open>s\<close> and its id, brand, model, year and plate as they were; in the stored
  state the row \<open>v\<close> is replaced by that row, every other vehicle row is as it was, and so
  is the user table. \<open>update_veiculo_status\<close> of the data-access layer does the same.
\<close>

theorem status_update_frame:
  assumes "ids_unique d" and "v \<in> set (veiculos d)" and "sqlite_int (id_veiculo v)"
    and "status_valid s"
  shows "\<exists>d' v'.
           atualizar_status (id_veiculo v) s d cu = (d', Inr v')
         \<and> update_veiculo_status d (id_veiculo v) s = (d', Inr (Some v'))
         \<and> status v' = s
         \<and> id_veiculo v' = id_veiculo v \<and> marca v' = marca v \<and> modelo v' = modelo v
         \<and> ano v' = ano v \<and> placa v' = placa v
         \<and> veiculos d' = map (\<lambda>r. if r = v then v' else r) (veiculos d)
         \<and> usuarios d' = usuarios d"
proof -
  have found: "first_veiculo_by_id d (id_veiculo v) = Inr (Some v)"
    using assms(1-3) by (simp add: first_veiculo_by_id_def ids_unique_def find_unique_key)
  have same: "(id_veiculo r = id_veiculo v) = (r = v)" if "r \<in> set (veiculos d)" for r
    using that assms(1,2) by (auto simp: ids_unique_def distinct_map inj_on_def)
  have rows: "map (\<lambda>r. if id_veiculo r = id_veiculo v then r\<lparr>status := s\<rparr> else r) (veiculos d)
            = map (\<lambda>r. if r = v then v\<lparr>status := s\<rparr> else r) (veiculos d)"
    by (rule map_cong) (auto simp: same)
  show ?thesis
    using found rows assms(4)
    by (simp add: atualizar_status_def update_veiculo_status_def get_veiculo_def
        store_status_def)
qed

theorem status_update_frame_witness:
  "atualizar_status 1 DESCONECTADO
      \<lparr>veiculos = [\<lparr>marca = py ''Fiat'', modelo = py ''Uno'', ano = 2022,
                     placa = py ''ABC1234'', status = CONNECTADO, id_veiculo = 1\<rparr>,
                   \<lparr>marca = py ''Ford'', modelo = py ''Ka'', ano = 2020,
                     placa = py ''XYZ5678'', status = CONNECTADO, id_veiculo = 2\<rparr>],
        usuarios = []\<rparr>
      \<lparr>username = py ''alice'', id_usuario = 1\<rparr>
   = (\<lparr>veiculos = [\<lparr>marca = py ''Fiat'', modelo = py ''Uno'', ano = 2022,
                     placa = py ''ABC1234'', status = DESCONECTADO, id_veiculo = 1\<rparr>,
                   \<lparr>marca = py ''Ford'', modelo = py ''Ka'', ano = 2020,
                     placa = py ''XYZ5678'', status = CONNECTADO, id_veiculo = 2\<rparr>],
        usuarios = []\<rparr>,
      Inr \<lparr>marca = py ''Fiat'', modelo = py ''Uno'', ano = 2022,
            placa = py ''ABC1234'', status = DESCONECTADO, id_veiculo = 1\<rparr>)"
proof -
  let ?v = "\<lparr>marca = py ''Fiat'', modelo = py ''Uno'', ano = 2022,
             placa = py ''ABC1234'', status = CONNECTADO, id_veiculo = 1\<rparr>"
  let ?w = "\<lparr>marca = py ''Ford'', modelo = py ''Ka'', ano = 2020,
             placa = py ''XYZ5678'', status = CONNECTADO, id_veiculo = 2\<rparr>"
  let ?d = "\<lparr>veiculos = [?v, ?w], usuarios = []\<rparr>"
  let ?cu = "\<lparr>username = py ''alice'', id_usuario = 1\<rparr>"
  have h1: "ids_unique ?d" by (simp add: ids_unique_def)
  have h2: "?v \<in> set (veiculos ?d)" by simp
  have h3: "status_valid DESCONECTADO" by (simp add: status_valid_def)
  have h4: "sqlite_int (id_veiculo ?v)" by simp
  obtain d' v' where r: "atualizar_status (id_veiculo ?v) DESCONECTADO ?d ?cu = (d', Inr v')"
    and s: "status v' = DESCONECTADO"
    and k: "id_veiculo v' = id_veiculo ?v" "marca v' = marca ?v" "modelo v' = modelo ?v"
      "ano v' = ano ?v" "placa v' = placa ?v"
    and vs: "veiculos d' = map (\<lambda>r. if r = ?v then v' else r) (veiculos ?d)"
    and us: "usuarios d' = usuarios ?d"
    using status_update_frame [OF h1 h2 h4 h3, of ?cu] by blast
  have v': "v' = \<lparr>marca = py ''Fiat'', modelo = py ''Uno'', ano = 2022,
            placa = py ''ABC1234'', status = DESCONECTADO, id_veiculo = 1\<rparr>"
    using s k by (cases v') simp
  have "d' = \<lparr>veiculos = [v', ?w], usuarios = []\<rparr>"
    using vs us by (cases d') (simp add: py_def)
  with r v' show ?thesis by simp
qed

section \<open>Effect of the operations on the vehicle table\<close>

lemma insert_veiculo_step:
  "insert_veiculo d v = Inr (d', row) \<Longrightarrow> veiculos_step (veiculos d) (veiculos d')"
proof -
  assume ins: "insert_veiculo d v = Inr (d', row)"
  then have "veiculos d' = veiculos d @ [row]"
    and "placa row \<notin> set (map placa (veiculos d))"
    and "id_veiculo row = new_id (map id_veiculo (veiculos d))"
    by (auto simp: insert_veiculo_def Let_def split: if_splits)
  then show ?thesis
    using veiculos_step.inserted[of row "veiculos d"] by simp
qed

lemma store_status_step: "veiculos_step (veiculos d) (veiculos (store_status d i s))"
  by (simp add: store_status_def veiculos_step.updated)

lemma remove_veiculo_step: "veiculos_step (veiculos d) (veiculos (remove_veiculo d i))"
  by (simp add: remove_veiculo_def veiculos_step.removed)

lemma criar_veiculo_step: "veiculos_step (veiculos d) (veiculos (fst (criar_veiculo v d cu)))"
  by (auto simp: criar_veiculo_def intro: veiculos_step.unchanged dest: insert_veiculo_step
      split: sum.splits exn.splits prod.splits)

lemma post_veiculos_step: "veiculos_step (veiculos d) (veiculos (fst (post_veiculos b d cu)))"
  by (simp add: post_veiculos_def criar_veiculo_step veiculos_step.unchanged
      split: sum.splits)

lemma create_veiculo_step: "veiculos_step (veiculos d) (veiculos (fst (create_veiculo d v)))"
  by (auto simp: create_veiculo_def intro: veiculos_step.unchanged dest: insert_veiculo_step
      split: sum.splits exn.splits prod.splits option.splits)

lemma atualizar_status_step:
  "veiculos_step (veiculos d) (veiculos (fst (atualizar_status i s d cu)))"
  by (simp add: atualizar_status_def store_status_step veiculos_step.unchanged
      split: sum.splits option.splits)

lemma update_veiculo_status_step:
  "veiculos_step (veiculos d) (veiculos (fst (update_veiculo_status d i s)))"
  by (simp add: update_veiculo_status_def store_status_step veiculos_step.unchanged
      split: sum.splits option.splits)

lemma excluir_veiculo_step:
  "veiculos_step (veiculos d) (veiculos (fst (excluir_veiculo i d cu)))"
  by (simp add: excluir_veiculo_def remove_veiculo_step veiculos_step.unchanged
      split: sum.splits option.splits)

lemma delete_veiculo_step: "veiculos_step (veiculos d) (veiculos (fst (delete_veiculo d i)))"
  by (simp add: delete_veiculo_def remove_veiculo_step veiculos_step.unchanged
      split: sum.splits option.splits)

text \<open>The user operations leave the vehicle table alone.\<close>

lemma insert_usuario_veiculos:
  "insert_usuario d name hashed = Inr (d', row) \<Longrightarrow> veiculos d' = veiculos d"
  by (auto simp: insert_usuario_def Let_def split: if_splits)

lemma criar_usuario_veiculos: "veiculos (fst (criar_usuario h u d)) = veiculos d"
  by (auto simp: criar_usuario_def dest: insert_usuario_veiculos
      split: sum.splits prod.splits)

lemma create_usuario_veiculos: "veiculos (fst (create_usuario h d u)) = veiculos d"
  by (auto simp: create_usuario_def dest: insert_usuario_veiculos
      split: sum.splits prod.splits option.splits)

lemma delete_usuario_veiculos: "veiculos (fst (delete_usuario d i)) = veiculos d"
  by (simp add: delete_usuario_def remove_usuario_def split: sum.splits option.splits)

lemma create_usuario_veiculos_dest:
  "create_usuario h d u = (d', res) \<Longrightarrow> veiculos d' = veiculos d"
  using create_usuario_veiculos[of h d u] by simp

lemma delete_usuario_veiculos_dest:
  "delete_usuario d i = (d', res) \<Longrightarrow> veiculos d' = veiculos d"
  using delete_usuario_veiculos[of d i] by simp

lemma main_try_veiculos: "veiculos (fst (main_try h a d)) = veiculos d"
proof (cases "arg_action a")
  case Create
  then show ?thesis
    by (auto simp: main_try_def Let_def UsuarioCreate_validate_def
        dest: create_usuario_veiculos_dest split: option.splits sum.splits prod.splits)
next
  case List
  then show ?thesis by (simp add: main_try_def)
next
  case Delete
  then show ?thesis
    by (auto simp: main_try_def Let_def dest: delete_usuario_veiculos_dest
        split: option.splits sum.splits prod.splits)
qed

lemma main_veiculos: "veiculos (fst (main h a d)) = veiculos d"
  using main_try_veiculos[of h a d]
  by (auto simp: main_def split: prod.splits sum.splits)

lemma step_veiculos: "veiculos_step (veiculos d) (veiculos (step au d x))"
proof (cases x)
  case (Login name pw)
  then show ?thesis
    by (simp add: login_for_access_token_def veiculos_step.unchanged split: option.splits)
next
  case (CriarUsuario u)
  then show ?thesis by (simp add: criar_usuario_veiculos veiculos_step.unchanged)
next
  case (PostUsuarios b)
  then show ?thesis
    by (simp add: post_usuarios_def UsuarioCreate_validate_def criar_usuario_veiculos
        veiculos_step.unchanged)
next
  case (ListarVeiculos cu)
  then show ?thesis by (simp add: listar_veiculos_def veiculos_step.unchanged)
next
  case (CriarVeiculo v cu)
  then show ?thesis by (simp add: criar_veiculo_step)
next
  case (PostVeiculos b cu)
  then show ?thesis by (simp add: post_veiculos_step)
next
  case (ObterVeiculo i cu)
  then show ?thesis
    by (simp add: obter_veiculo_def veiculos_step.unchanged split: sum.splits option.splits)
next
  case (AtualizarStatus i s cu)
  then show ?thesis by (simp add: atualizar_status_step)
next
  case (ExcluirVeiculo i cu)
  then show ?thesis by (simp add: excluir_veiculo_step)
next
  case (CrudCreateVeiculo v)
  then show ?thesis by (simp add: create_veiculo_step)
next
  case (CrudUpdateVeiculoStatus i s)
  then show ?thesis by (simp add: update_veiculo_status_step)
next
  case (CrudDeleteVeiculo i)
  then show ?thesis by (simp add: delete_veiculo_step)
next
  case (CrudCreateUsuario u)
  then show ?thesis by (simp add: create_usuario_veiculos veiculos_step.unchanged)
next
  case (CrudDeleteUsuario i)
  then show ?thesis by (simp add: delete_usuario_veiculos veiculos_step.unchanged)
next
  case (ManageUsers a)
  then show ?thesis by (simp add: main_veiculos veiculos_step.unchanged)
qed

section \<open>Table invariants\<close>


lemma veiculos_step_ids:
  "veiculos_step rows rows' \<Longrightarrow> distinct (map id_veiculo rows) \<Longrightarrow>
     distinct (map id_veiculo rows')"
proof (induction rule: veiculos_step.induct)
  case (inserted row rows)
  then show ?case
    using new_id_fresh[of "id_veiculo row" "map id_veiculo rows"] by auto
next
  case (updated rows i s)
  have "id_veiculo \<circ> (\<lambda>r::Veiculo. if id_veiculo r = i then r\<lparr>status := s\<rparr> else r)
          = id_veiculo"
    by (auto simp: fun_eq_iff)
  with updated show ?case by simp
qed (simp_all add: distinct_map_filter)

lemma new_id_bounds:
  assumes "\<forall>i\<in>set ids. 1 \<le> i \<and> i \<le> B" and "0 \<le> B"
  shows "1 \<le> new_id ids \<and> new_id ids \<le> B + 1"
proof (cases ids)
  case Nil
  with assms(2) show ?thesis by simp
next
  case (Cons a as)
  define m where "m = fold max as a"
  have "Max (set (a # as)) \<in> set (a # as)"
    by (rule Max_in) simp_all
  moreover have "Max (set (a # as)) = m"
    unfolding m_def by (rule Max.set_eq_fold)
  ultimately have "m \<in> set ids"
    using Cons by simp
  with assms(1) have "1 \<le> m \<and> m \<le> B"
    by blast
  then show ?thesis
    using Cons by (simp add: m_def)
qed

lemma veiculos_step_keys:
  "veiculos_step rows rows' \<Longrightarrow> 0 \<le> B \<Longrightarrow>
     \<forall>r\<in>set rows. 1 \<le> id_veiculo r \<and> id_veiculo r \<le> B \<Longrightarrow>
     \<forall>r\<in>set rows'. 1 \<le> id_veiculo r \<and> id_veiculo r \<le> B + 1"
proof (induction rule: veiculos_step.induct)
  case (inserted row rows)
  then show ?case
    using new_id_bounds[of "map id_veiculo rows" B] by force
qed (force+)



lemma step_ids_unique: "ids_unique d \<Longrightarrow> ids_unique (step au d x)"
  using veiculos_step_ids[OF step_veiculos] by (simp add: ids_unique_def)

lemma run_ids_unique: "ids_unique d \<Longrightarrow> ids_unique (run au d xs)"
  by (induction xs arbitrary: d) (simp_all add: step_ids_unique)

text \<open>
  In every state reached from the empty tables the primary keys of the vehicle table are
  distinct.
\<close>

lemma reachable_ids_unique: "ids_unique (run au empty_db xs)"
  by (rule run_ids_unique) (simp add: ids_unique_def empty_db_def)

lemma run_keys:
  "0 \<le> B \<Longrightarrow> \<forall>r\<in>set (veiculos d). 1 \<le> id_veiculo r \<and> id_veiculo r \<le> B \<Longrightarrow>
     \<forall>r\<in>set (veiculos (run au d xs)). 1 \<le> id_veiculo r \<and> id_veiculo r \<le> B + int (length xs)"
proof (induction xs arbitrary: d B)
  case Nil
  then show ?case by simp
next
  case (Cons x xs)
  have "\<forall>r\<in>set (veiculos (step au d x)). 1 \<le> id_veiculo r \<and> id_veiculo r \<le> B + 1"
    using veiculos_step_keys[OF step_veiculos Cons.prems] .
  moreover have "0 \<le> B + 1" using Cons.prems(1) by simp
  ultimately have
    "\<forall>r\<in>set (veiculos (run au (step au d x) xs)).
        1 \<le> id_veiculo r \<and> id_veiculo r \<le> B + 1 + int (length xs)"
    by (rule Cons.IH[rotated])
  then show ?case by (simp add: algebra_simps)
qed

text \<open>
  In a state reached from the empty tables by \<open>n\<close> operations every key lies between \<open>1\<close>
  and \<open>n\<close>; with fewer than \<open>2 ^ 63\<close> operations every stored key is a signed 64-bit
  integer.
\<close>

lemma reachable_keys:
  assumes "r \<in> set (veiculos (run au empty_db xs))"
  shows "1 \<le> id_veiculo r \<and> id_veiculo r \<le> int (length xs)"
  using run_keys[of 0 empty_db au xs] assms by (simp add: empty_db_def)

lemma reachable_keys_sqlite_int:
  assumes "r \<in> set (veiculos (run au empty_db xs))" and "length xs < 2 ^ 63"
  shows "sqlite_int (id_veiculo r)"
proof -
  have "int (length xs) < 2 ^ 63"
    using assms(2) by (metis of_nat_less_iff of_nat_numeral of_nat_power)
  then show ?thesis
    using reachable_keys[OF assms(1)] by (simp add: sqlite_int_def)
qed

section \<open>Plate uniqueness\<close>




section \<open>Authentication\<close>

text \<open>
  C6. Take two login attempts, one with a username that matches no stored user, one with a
  stored username and a password that fails verification. Both are rejected with the same
  exception: status 401, detail "Usuario ou senha incorretos", header
  \<open>WWW-Authenticate: Bearer\<close>; neither changes the stored state. Nothing in the response
  tells which check failed.
\<close>

theorem login_rejections_identical:
  assumes "get_usuario_by_username d1 name1 = None"
    and "get_usuario_by_username d2 name2 = Some user"
    and "\<not> verify_password pw2 (hashed_password user)"
  shows "snd (login_for_access_token verify_password create_access_token m d1 name1 pw1)
           = snd (login_for_access_token verify_password create_access_token m d2 name2 pw2)
     \<and> login_for_access_token verify_password create_access_token m d1 name1 pw1
           = (d1, Inl (HTTPException 401 UsuarioOuSenhaIncorretos
                         [(''WWW-Authenticate'', ''Bearer'')]))
     \<and> login_for_access_token verify_password create_access_token m d2 name2 pw2
           = (d2, Inl (HTTPException 401 UsuarioOuSenhaIncorretos
                         [(''WWW-Authenticate'', ''Bearer'')]))"
  using assms by (simp add: login_for_access_token_def authenticate_user_def)

theorem login_rejections_identical_witness:
  "snd (login_for_access_token (\<lambda>pw h. h = 0 # pw) (\<lambda>sub m. sub) 30
          \<lparr>veiculos = [],
            usuarios = [\<lparr>username = py ''bob'', id_usuario = 1,
                          hashed_password = 0 # py ''secret''\<rparr>]\<rparr>
          (py ''carol'') (py ''secret''))
   = snd (login_for_access_token (\<lambda>pw h. h = 0 # pw) (\<lambda>sub m. sub) 30
          \<lparr>veiculos = [],
            usuarios = [\<lparr>username = py ''bob'', id_usuario = 1,
                          hashed_password = 0 # py ''secret''\<rparr>]\<rparr>
          (py ''bob'') (py ''wrong''))"
proof -
  let ?bob = "\<lparr>username = py ''bob'', id_usuario = 1, hashed_password = 0 # py ''secret''\<rparr>"
  let ?d = "\<lparr>veiculos = [], usuarios = [?bob]\<rparr>"
  have h1: "get_usuario_by_username ?d (py ''carol'') = None"
    by (simp add: get_usuario_by_username_def py_def)
  have h2: "get_usuario_by_username ?d (py ''bob'') = Some ?bob"
    by (simp add: get_usuario_by_username_def)
  have h3: "\<not> (\<lambda>pw h. h = 0 # pw) (py ''wrong'') (hashed_password ?bob)"
    by (simp add: py_def)
  from login_rejections_identical
    [where verify_password = "\<lambda>pw h. h = 0 # pw", OF h1 h2 h3]
  show ?thesis by blast
qed

section \<open>User creation\<close>

text \<open>
  C1. The data-access function \<open>create_usuario\<close> looks the username up before inserting,
  and for a username that is stored it raises its duplicate signal with the stored state
  as it was. The endpoint handler \<open>criar_usuario\<close> neither looks the username up nor
  catches the engine's error: for the request below, whose username is stored, the
  \<open>IntegrityError\<close> of the commit leaves the handler as it is. The stored state is as it
  was in both.
\<close>

theorem criar_usuario_duplicate_not_translated:
  "criar_usuario (\<lambda>pw. Inr (0 # pw)) \<lparr>username = py ''bob'', password = py ''other''\<rparr>
      \<lparr>veiculos = [],
        usuarios = [\<lparr>username = py ''bob'', id_usuario = 1,
                      hashed_password = 0 # py ''secret''\<rparr>]\<rparr>
   = (\<lparr>veiculos = [],
        usuarios = [\<lparr>username = py ''bob'', id_usuario = 1,
                      hashed_password = 0 # py ''secret''\<rparr>]\<rparr>,
      Inl IntegrityError)
   \<and> create_usuario (\<lambda>pw. Inr (0 # pw))
      \<lparr>veiculos = [],
        usuarios = [\<lparr>username = py ''bob'', id_usuario = 1,
                      hashed_password = 0 # py ''secret''\<rparr>]\<rparr>
      \<lparr>username = py ''bob'', password = py ''other''\<rparr>
   = (\<lparr>veiculos = [],
        usuarios = [\<lparr>username = py ''bob'', id_usuario = 1,
                      hashed_password = 0 # py ''secret''\<rparr>]\<rparr>,
      Inl (ValueError (UsuarioJaExiste (py ''bob''))))"
  by (simp add: criar_usuario_def create_usuario_def insert_usuario_def
      get_usuario_by_username_def)

text \<open>
  In general: \<open>create_usuario\<close> answers a stored username with its duplicate signal,
  \<open>criar_usuario\<close> with the raw engine error (when the hashing itself succeeds).
\<close>

lemma create_usuario_duplicate:
  "name \<in> set (map username (usuarios d)) \<Longrightarrow> username u = name \<Longrightarrow>
     create_usuario h d u = (d, Inl (ValueError (UsuarioJaExiste name)))"
  using find_present[of name username "usuarios d"]
  by (auto simp: create_usuario_def get_usuario_by_username_def)

lemma criar_usuario_duplicate:
  "username u \<in> set (map username (usuarios d)) \<Longrightarrow> h (password u) = Inr hashed \<Longrightarrow>
     criar_usuario h u d = (d, Inl IntegrityError)"
  by (simp add: criar_usuario_def insert_usuario_def)

section \<open>Operator CLI\<close>

text \<open>
  C9. The create action without a username or without a password (absent or empty) prints
  "Usuario e senha sao necessarios ..." and returns with the stored state as it was; the
  delete action without a username prints "Nome de usuario e necessario ..." and returns
  likewise. Whatever exception \<open>e\<close> the body of the \<open>try\<close> block leaves with, \<open>main\<close>
  returns normally after printing "Ocorreu um erro: e"; such an exception does occur, for
  instance when the hashing primitive raises while a new user is created, and the stored
  state is then as it was.
\<close>

theorem cli_missing_arguments_and_errors:
  "(arg_action a = Create \<and> (py_not (arg_username a) \<or> py_not (arg_password a))
      \<longrightarrow> main h a d = (d, [UsuarioESenhaNecessarios]))
   \<and> (arg_action a = Delete \<and> py_not (arg_username a)
      \<longrightarrow> main h a d = (d, [NomeNecessario]))
   \<and> (main_try h a d = (d', out, Inl e)
      \<longrightarrow> main h a d = (d', out @ [OcorreuUmErro e]))
   \<and> (arg_action a = Create \<and> arg_username a = Some name \<and> name \<noteq> []
        \<and> arg_password a = Some pw \<and> pw \<noteq> []
        \<and> get_usuario_by_username d name = None \<and> h pw = Inl e
      \<longrightarrow> main h a d = (d, [OcorreuUmErro e]))"
  by (simp add: main_def main_try_def UsuarioCreate_validate_def create_usuario_def)

theorem cli_missing_arguments_and_errors_witness:
  "main Inr \<lparr>arg_action = Create, arg_username = Some (py ''bob''), arg_password = None\<rparr>
      empty_db = (empty_db, [UsuarioESenhaNecessarios])
   \<and> main Inr \<lparr>arg_action = Delete, arg_username = None, arg_password = None\<rparr>
      empty_db = (empty_db, [NomeNecessario])
   \<and> main (\<lambda>pw. Inl (OtherError ''password too long''))
        \<lparr>arg_action = Create, arg_username = Some (py ''bob''),
          arg_password = Some (py ''secret'')\<rparr>
      empty_db = (empty_db, [OcorreuUmErro (OtherError ''password too long'')])"
proof -
  let ?a1 = "\<lparr>arg_action = Create, arg_username = Some (py ''bob''), arg_password = None\<rparr>"
  let ?a2 = "\<lparr>arg_action = Delete, arg_username = None, arg_password = None\<rparr>"
  let ?a3 = "\<lparr>arg_action = Create, arg_username = Some (py ''bob''),
          arg_password = Some (py ''secret'')\<rparr>"
  let ?h = "\<lambda>pw::str. Inl (OtherError ''password too long'') :: exn + str"
  have h1: "arg_action ?a1 = Create \<and> (py_not (arg_username ?a1) \<or> py_not (arg_password ?a1))"
    by simp
  have h2: "arg_action ?a2 = Delete \<and> py_not (arg_username ?a2)"
    by simp
  have h3: "main_try ?h ?a3 empty_db
              = (empty_db, [], Inl (OtherError ''password too long''))"
    by (simp add: main_try_def UsuarioCreate_validate_def create_usuario_def
        get_usuario_by_username_def empty_db_def py_def)
  from h1 cli_missing_arguments_and_errors [where a = ?a1 and h = Inr and d = empty_db]
  have r1: "main Inr ?a1 empty_db = (empty_db, [UsuarioESenhaNecessarios])"
    by blast
  from h2 cli_missing_arguments_and_errors [where a = ?a2 and h = Inr and d = empty_db]
  have r2: "main Inr ?a2 empty_db = (empty_db, [NomeNecessario])"
    by blast
  from h3 cli_missing_arguments_and_errors
    [where a = ?a3 and h = ?h and d = empty_db and d' = empty_db and out = "[]"
       and e = "OtherError ''password too long''"]
  have r3: "main ?h ?a3 empty_db = (empty_db, [OcorreuUmErro (OtherError ''password too long'')])"
    by simp
  from r1 r2 r3 show ?thesis by blast
qed

section \<open>Passwords and responses\<close>

lemma find_by_username: "find (\<lambda>r. username r = name) rows = Some user \<Longrightarrow> username user = name"
  by (auto simp: find_Some_iff)

lemma criar_usuario_response:
  "criar_usuario h u d = (d', Inr resp) \<Longrightarrow>
     resp = \<lparr>username = username u, id_usuario = new_id (map id_usuario (usuarios d))\<rparr>"
  by (auto simp: criar_usuario_def insert_usuario_def Usuario_response_def Let_def
      split: sum.splits if_splits)

lemma criar_usuario_password_independent:
  assumes "h (password u) = Inr x" and "h' (password u') = Inr x'"
    and "username u' = username u"
    and "map Usuario_response (usuarios d') = map Usuario_response (usuarios d)"
  shows "snd (criar_usuario h' u' d') = snd (criar_usuario h u d)"
proof -
  have "map (username \<circ> Usuario_response) (usuarios d')
          = map (username \<circ> Usuario_response) (usuarios d)"
    and "map (id_usuario \<circ> Usuario_response) (usuarios d')
          = map (id_usuario \<circ> Usuario_response) (usuarios d)"
    using assms(4) by (metis map_map)+
  then have "map username (usuarios d') = map username (usuarios d)"
    and "map id_usuario (usuarios d') = map id_usuario (usuarios d)"
    by (simp_all add: comp_def Usuario_response_def)
  then show ?thesis
    using assms(1-3)
    by (simp add: criar_usuario_def insert_usuario_def Usuario_response_def Let_def)
qed

lemma login_response:
  "snd (login_for_access_token vp cat m d name pw)
     = Inl (HTTPException 401 UsuarioOuSenhaIncorretos [(''WWW-Authenticate'', ''Bearer'')])
   \<or> snd (login_for_access_token vp cat m d name pw)
     = Inr \<lparr>access_token = cat name m, token_type = ''bearer''\<rparr>"
  by (auto simp: login_for_access_token_def authenticate_user_def
      get_usuario_by_username_def dest: find_by_username split: option.splits)

lemma vehicle_responses_ignore_users:
  "snd (listar_veiculos (d\<lparr>usuarios := us\<rparr>) cu) = snd (listar_veiculos d cu)"
  "snd (criar_veiculo v (d\<lparr>usuarios := us\<rparr>) cu) = snd (criar_veiculo v d cu)"
  "snd (obter_veiculo i (d\<lparr>usuarios := us\<rparr>) cu) = snd (obter_veiculo i d cu)"
  "snd (atualizar_status i s (d\<lparr>usuarios := us\<rparr>) cu) = snd (atualizar_status i s d cu)"
  "snd (excluir_veiculo i (d\<lparr>usuarios := us\<rparr>) cu) = snd (excluir_veiculo i d cu)"
  by (simp_all add: listar_veiculos_def criar_veiculo_def insert_veiculo_def Let_def
      obter_veiculo_def atualizar_status_def excluir_veiculo_def first_veiculo_by_id_def
      split: option.splits)

text \<open>
  C8. No response carries a password.
  \<^item> The response of a successful user creation is the record of exactly \<open>username\<close> and
    \<open>id\<close>: the requested username and the new primary key.
  \<^item> It does not depend on a password in any form: two creations of the same username, with
    any two plaintext passwords, any two hashing functions, and user tables that differ
    in their stored hashes only, give the same response.
  \<^item> The login response is the fixed 401 rejection or the token made from the username and
    the expiry alone.
  \<^item> The responses of the vehicle endpoints are the same whatever the user table holds.
\<close>

theorem password_never_in_response:
  "(criar_usuario h u d = (d', Inr resp) \<longrightarrow>
      resp = \<lparr>username = username u, id_usuario = new_id (map id_usuario (usuarios d))\<rparr>)
   \<and> (h (password u) = Inr x \<and> h' (password u') = Inr x' \<and> username u' = username u
        \<and> map Usuario_response (usuarios e) = map Usuario_response (usuarios d)
      \<longrightarrow> snd (criar_usuario h' u' e) = snd (criar_usuario h u d))
   \<and> (snd (login_for_access_token vp cat m d name pw)
         = Inl (HTTPException 401 UsuarioOuSenhaIncorretos [(''WWW-Authenticate'', ''Bearer'')])
       \<or> snd (login_for_access_token vp cat m d name pw)
         = Inr \<lparr>access_token = cat name m, token_type = ''bearer''\<rparr>)
   \<and> snd (listar_veiculos (d\<lparr>usuarios := us\<rparr>) cu) = snd (listar_veiculos d cu)
   \<and> snd (criar_veiculo v (d\<lparr>usuarios := us\<rparr>) cu) = snd (criar_veiculo v d cu)
   \<and> snd (obter_veiculo i (d\<lparr>usuarios := us\<rparr>) cu) = snd (obter_veiculo i d cu)
   \<and> snd (atualizar_status i s (d\<lparr>usuarios := us\<rparr>) cu) = snd (atualizar_status i s d cu)
   \<and> snd (excluir_veiculo i (d\<lparr>usuarios := us\<rparr>) cu) = snd (excluir_veiculo i d cu)"
  using criar_usuario_response[of h u d d' resp]
    criar_usuario_password_independent[of h u x h' u' x' e d]
    login_response[of vp cat m d name pw]
  by (simp add: vehicle_responses_ignore_users)

theorem password_never_in_response_witness:
  "criar_usuario (\<lambda>pw. Inr (0 # pw)) \<lparr>username = py ''bob'', password = py ''secret''\<rparr>
       empty_db
     = (\<lparr>veiculos = [],
          usuarios = [\<lparr>username = py ''bob'', id_usuario = 1,
                        hashed_password = 0 # py ''secret''\<rparr>]\<rparr>,
        Inr \<lparr>username = py ''bob'', id_usuario = 1\<rparr>)
   \<and> snd (criar_usuario (\<lambda>pw. Inr (1 # pw)) \<lparr>username = py ''bob'', password = py ''other''\<rparr>
            empty_db)
     = snd (criar_usuario (\<lambda>pw. Inr (0 # pw)) \<lparr>username = py ''bob'', password = py ''secret''\<rparr>
            empty_db)"
proof -
  let ?h = "\<lambda>pw::str. Inr (0 # pw) :: exn + str"
  let ?h' = "\<lambda>pw::str. Inr (1 # pw) :: exn + str"
  let ?u = "\<lparr>username = py ''bob'', password = py ''secret''\<rparr>"
  let ?u' = "\<lparr>username = py ''bob'', password = py ''other''\<rparr>"
  let ?d' = "\<lparr>veiculos = [],
          usuarios = [\<lparr>username = py ''bob'', id_usuario = 1,
                        hashed_password = 0 # py ''secret''\<rparr>]\<rparr>"
  let ?resp = "\<lparr>username = py ''bob'', id_usuario = 1\<rparr>"
  note fact = password_never_in_response
    [where h = ?h and u = ?u and d = empty_db and d' = ?d' and resp = ?resp
       and h' = ?h' and u' = ?u' and e = empty_db
       and x = "0 # py ''secret''" and x' = "1 # py ''other''"]
  have h1: "criar_usuario ?h ?u empty_db = (?d', Inr ?resp)"
    by (simp add: criar_usuario_def insert_usuario_def Usuario_response_def empty_db_def
        Let_def)
  have h2: "?h (password ?u) = Inr (0 # py ''secret'') \<and> ?h' (password ?u') = Inr (1 # py ''other'')
      \<and> username ?u' = username ?u
      \<and> map Usuario_response (usuarios empty_db) = map Usuario_response (usuarios empty_db)"
    by simp
  from fact h2 have "snd (criar_usuario ?h' ?u' empty_db) = snd (criar_usuario ?h ?u empty_db)"
    by blast
  with h1 show ?thesis by blast
qed

end
